theory Spec2Isabelle
  imports Main "HOL-Library.Word" "HOL-Library.Multiset" "HOL-Library.Char_ord"
    "HOL-Library.List_Lexorder"
begin

section \<open>Python values, exceptions and builtins\<close>

text \<open>
  A CPython float is an IEEE-754 binary64 number; it is carried as its 64-bit pattern, so
  that equality of the model is identity of the value (a NaN is the same value as itself),
  while Python's \<^verbatim>\<open>==\<close> on floats is a separate operation.
\<close>

type_synonym pyfloat = "64 word"

text \<open>
  The raw values a caller can hand to a node. \<open>PEnum t m\<close> is the member named \<open>m\<close>
  (its canonical name) of the plain \<^verbatim>\<open>Enum\<close> class named \<open>t\<close>; \<open>PObj\<close> is any
  other object (neither a primitive, nor a node, nor a list or a dict), of a class that
  has the comparisons of \<^verbatim>\<open>object\<close> and so no order.
\<close>

datatype pyval =
    PNone
  | PBool bool
  | PInt int
  | PFloat pyfloat
  | PStr string
  | PEnum string string
  | PObj nat

text \<open>The exceptions of \<^verbatim>\<open>errors.py\<close> and the Python builtins' that the code lets through.\<close>

datatype error =
    ValidationError
  | UnsupportedValueType "string option"
  | UnsupportedKeyType
  | ReadonlyConfigError "string option"
  | MissingMandatoryValue string
  | IndexError
  | TypeError
  | ValueError
  | OverflowError
  | AttributeError
  | AssertionError

subsection \<open>\<^verbatim>\<open>int(s)\<close>, \<^verbatim>\<open>str(i)\<close> and \<^verbatim>\<open>s.lower()\<close>\<close>

text \<open>
  A character is a code point below 256, and a string a list of them. The blanks that
  \<^verbatim>\<open>int\<close> skips at both ends of a string are then the code points 9 to 13, 32, 133 and 160
  (28 to 31 are blanks for \<^verbatim>\<open>str.isspace\<close>, not for \<^verbatim>\<open>int\<close>); its digits are \<^verbatim>\<open>0\<close> to
  \<^verbatim>\<open>9\<close>.
\<close>

definition is_space :: "char \<Rightarrow> bool" where
  "is_space c =
     (let n = (of_char c :: nat) in (9 \<le> n \<and> n \<le> 13) \<or> n = 32 \<or> n = 133 \<or> n = 160)"

definition is_digit :: "char \<Rightarrow> bool" where
  "is_digit c = (let n = (of_char c :: nat) in 48 \<le> n \<and> n \<le> 57)"

definition digit_val :: "char \<Rightarrow> nat" where
  "digit_val c = (of_char c :: nat) - 48"

definition strip :: "string \<Rightarrow> string" where
  "strip s = rev (dropWhile is_space (rev (dropWhile is_space s)))"

text \<open>Digits after the first one: a single underscore may stand between two digits.\<close>

fun parse_digits :: "nat \<Rightarrow> string \<Rightarrow> nat option" where
  "parse_digits acc [] = Some acc"
| "parse_digits acc [c] = (if is_digit c then Some (acc * 10 + digit_val c) else None)"
| "parse_digits acc (c # d # r) =
     (if is_digit c then parse_digits (acc * 10 + digit_val c) (d # r)
      else if c = CHR ''_'' \<and> is_digit d then parse_digits acc (d # r)
      else None)"

definition parse_nat :: "string \<Rightarrow> nat option" where
  "parse_nat s =
     (case s of
        [] \<Rightarrow> None
      | c # r \<Rightarrow> if is_digit c then parse_digits (digit_val c) r else None)"

text \<open>\<^verbatim>\<open>int(s)\<close> for a string: \<open>None\<close> is \<^verbatim>\<open>ValueError\<close>.\<close>

definition int_of_str :: "string \<Rightarrow> int option" where
  "int_of_str s =
     (case strip s of
        [] \<Rightarrow> None
      | c # r \<Rightarrow>
          if c = CHR ''-'' then map_option (\<lambda>n. - int n) (parse_nat r)
          else if c = CHR ''+'' then map_option int (parse_nat r)
          else map_option int (parse_nat (c # r)))"

text \<open>
  \<^verbatim>\<open>str.lower\<close>: the capital letters below 256 are \<^verbatim>\<open>A\<close> to \<^verbatim>\<open>Z\<close> and the code points
  192 to 222 but 215; each has its small letter 32 places further.
\<close>

definition lower_char :: "char \<Rightarrow> char" where
  "lower_char c =
     (let n = (of_char c :: nat)
      in if (65 \<le> n \<and> n \<le> 90) \<or> (192 \<le> n \<and> n \<le> 222 \<and> n \<noteq> 215) then char_of (n + 32)
         else c)"

definition lower :: "string \<Rightarrow> string" where
  "lower s = map lower_char s"

fun str_of_nat :: "nat \<Rightarrow> string" where
  "str_of_nat n =
     (if n < 10 then [char_of (48 + n)]
      else str_of_nat (n div 10) @ [char_of (48 + n mod 10)])"

declare str_of_nat.simps [simp del]

definition str_of_int :: "int \<Rightarrow> string" where
  "str_of_int i = (if i < 0 then CHR ''-'' # str_of_nat (nat (- i)) else str_of_nat (nat i))"

fun startswith :: "string \<Rightarrow> string \<Rightarrow> bool" where
  "startswith s [] = True"
| "startswith [] (p # ps) = False"
| "startswith (c # cs) (p # ps) = (c = p \<and> startswith cs ps)"

subsection \<open>Builtins on floats and opaque objects\<close>

text \<open>
  \<^verbatim>\<open>float(s)\<close>, \<^verbatim>\<open>float(i)\<close>, \<^verbatim>\<open>str(x)\<close> on a float or an object, and \<^verbatim>\<open>==\<close> on raw values
  are Python's own; the model takes them as parameters. \<open>float_of_str\<close> gives \<open>None\<close>
  for \<^verbatim>\<open>ValueError\<close>, \<open>float_of_int\<close> gives \<open>None\<close> for \<^verbatim>\<open>OverflowError\<close>.
  \<open>arrangement\<close> is the order in which \<^verbatim>\<open>list.sort\<close> leaves a list where the model does
  not compute it (see \<open>py_list_sort\<close> below): given the keys and the \<^verbatim>\<open>reverse\<close> flag, the
  positions of the list as it was, in the order the call leaves them.
\<close>

record builtins =
  float_of_str :: "string \<Rightarrow> pyfloat option"
  float_of_int :: "int \<Rightarrow> pyfloat option"
  str_of_float :: "pyfloat \<Rightarrow> string"
  str_of_obj :: "nat \<Rightarrow> string"
  py_eq :: "pyval \<Rightarrow> pyval \<Rightarrow> bool"
  arrangement :: "pyval list \<Rightarrow> bool \<Rightarrow> nat list"

text \<open>\<^verbatim>\<open>math.isnan\<close>: the exponent bits are all set and the fraction is not zero.\<close>

definition isnan :: "pyfloat \<Rightarrow> bool" where
  "isnan w = (take_bit 11 (drop_bit 52 w) = 2047 \<and> take_bit 52 w \<noteq> 0)"

text \<open>\<^verbatim>\<open>str(x)\<close>; a plain enum member prints as \<^verbatim>\<open>Type.NAME\<close>.\<close>

fun py_str :: "builtins \<Rightarrow> pyval \<Rightarrow> string" where
  "py_str B PNone = ''None''"
| "py_str B (PBool b) = (if b then ''True'' else ''False'')"
| "py_str B (PInt i) = str_of_int i"
| "py_str B (PFloat f) = str_of_float B f"
| "py_str B (PStr s) = s"
| "py_str B (PEnum t m) = t @ ''.'' @ m"
| "py_str B (PObj n) = str_of_obj B n"

section \<open>The scalar nodes of \<^verbatim>\<open>nodes.py\<close>\<close>

text \<open>
  The classification of \<^verbatim>\<open>_utils.get_value_kind\<close> is the resolver hook: a parameter
  \<open>gvk\<close> of the functions that call it.
\<close>

datatype ValueKind = VALUE | MANDATORY_MISSING | INTERPOLATION

text \<open>
  An \<^verbatim>\<open>Enum\<close> class: its name, \<^verbatim>\<open>__members__\<close> as pairs of a name and the canonical
  name of the member it denotes (an alias denotes the member of another name), and the
  members that an integer looks up by value.
\<close>

record enum_type =
  enum_name :: string
  members :: "(string \<times> string) list"
  int_values :: "(int \<times> string) list"

datatype node_kind = AnyK | StringK | IntegerK | FloatK | BooleanK | EnumK enum_type

record ValueNode =
  kind :: node_kind
  is_optional :: bool
  val :: pyval

text \<open>
  Modelled from the spec: \<^verbatim>\<open>omegaconf._is_primitive_type\<close> is not among the sources; the
  spec's table gives the primitives as bool, int, float, str, none and the already
  canonical values of the other kinds (enum members).
\<close>

fun is_primitive_type :: "pyval \<Rightarrow> bool" where
  "is_primitive_type (PObj n) = False"
| "is_primitive_type v = True"

definition AnyNode_validate_and_convert :: "pyval \<Rightarrow> error + pyval" where
  "AnyNode_validate_and_convert v =
     (if \<not> is_primitive_type v then Inl (UnsupportedValueType None) else Inr v)"

definition StringNode_validate_and_convert :: "builtins \<Rightarrow> pyval \<Rightarrow> error + pyval" where
  "StringNode_validate_and_convert B v =
     (if v \<noteq> PNone then Inr (PStr (py_str B v)) else Inr PNone)"

fun IntegerNode_validate_and_convert :: "pyval \<Rightarrow> error + pyval" where
  "IntegerNode_validate_and_convert PNone = Inr PNone"
| "IntegerNode_validate_and_convert (PStr s) =
     (case int_of_str s of None \<Rightarrow> Inl ValidationError | Some i \<Rightarrow> Inr (PInt i))"
| "IntegerNode_validate_and_convert (PInt i) = Inr (PInt i)"
| "IntegerNode_validate_and_convert v = Inl ValidationError"

fun FloatNode_validate_and_convert :: "builtins \<Rightarrow> pyval \<Rightarrow> error + pyval" where
  "FloatNode_validate_and_convert B PNone = Inr PNone"
| "FloatNode_validate_and_convert B (PFloat f) = Inr (PFloat f)"
| "FloatNode_validate_and_convert B (PStr s) =
     (case float_of_str B s of None \<Rightarrow> Inl ValidationError | Some f \<Rightarrow> Inr (PFloat f))"
| "FloatNode_validate_and_convert B (PInt i) =
     (case float_of_int B i of None \<Rightarrow> Inl OverflowError | Some f \<Rightarrow> Inr (PFloat f))"
| "FloatNode_validate_and_convert B v = Inl ValidationError"

text \<open>
  \<^verbatim>\<open>BooleanNode.validate_and_convert\<close>: a bool is an int in Python, so the bool test comes
  first; a string is first tried as an integer, through the function itself.
\<close>

function BooleanNode_validate_and_convert :: "pyval \<Rightarrow> error + pyval" where
  "BooleanNode_validate_and_convert (PBool b) = Inr (PBool b)"
| "BooleanNode_validate_and_convert (PInt i) = Inr (PBool (i \<noteq> 0))"
| "BooleanNode_validate_and_convert PNone = Inr PNone"
| "BooleanNode_validate_and_convert (PStr s) =
     (case int_of_str s of
        Some i \<Rightarrow> BooleanNode_validate_and_convert (PInt i)
      | None \<Rightarrow>
          if lower s \<in> set [''yes'', ''y'', ''on'', ''true''] then Inr (PBool True)
          else if lower s \<in> set [''no'', ''n'', ''off'', ''false''] then Inr (PBool False)
          else Inl ValidationError)"
| "BooleanNode_validate_and_convert (PFloat f) = Inl ValidationError"
| "BooleanNode_validate_and_convert (PEnum t m) = Inl ValidationError"
| "BooleanNode_validate_and_convert (PObj n) = Inl ValidationError"
  by pat_completeness auto
termination
  by (relation "measure (\<lambda>v. case v of PStr s \<Rightarrow> 1 | _ \<Rightarrow> 0)") auto

text \<open>
  \<^verbatim>\<open>EnumNode.validate_and_convert\<close>. \<open>enum_by_name\<close> is \<^verbatim>\<open>enum_type[name]\<close>
  (\<^verbatim>\<open>KeyError\<close> is \<open>None\<close>), \<open>enum_by_value\<close> is \<^verbatim>\<open>enum_type(i)\<close> (\<^verbatim>\<open>ValueError\<close> is
  \<open>None\<close>); \<open>fields\<close> has the keys of \<^verbatim>\<open>__members__\<close>.
\<close>

definition enum_by_name :: "enum_type \<Rightarrow> string \<Rightarrow> string option" where
  "enum_by_name E n = map_of (members E) n"

definition enum_by_value :: "enum_type \<Rightarrow> int \<Rightarrow> string option" where
  "enum_by_value E i = map_of (int_values E) i"

definition enum_return :: "enum_type \<Rightarrow> string \<Rightarrow> error + pyval" where
  "enum_return E key =
     (if key \<in> set (map fst (members E)) then
        (case enum_by_name E key of
           Some m \<Rightarrow> Inr (PEnum (enum_name E) m)
         | None \<Rightarrow> Inl AssertionError)
      else Inl AssertionError)"

fun EnumNode_validate_and_convert :: "enum_type \<Rightarrow> pyval \<Rightarrow> error + pyval" where
  "EnumNode_validate_and_convert E PNone = Inr PNone"
| "EnumNode_validate_and_convert E (PEnum t m) =
     (if t \<noteq> enum_name E then Inl ValidationError else enum_return E m)"
| "EnumNode_validate_and_convert E (PStr s) =
     (let prefix = enum_name E @ ''.'';
          s' = (if startswith s prefix then drop (length prefix) s else s)
      in case enum_by_name E s' of
           None \<Rightarrow> Inl ValidationError
         | Some m \<Rightarrow> enum_return E m)"
| "EnumNode_validate_and_convert E (PInt i) =
     (case enum_by_value E i of
        None \<Rightarrow> Inl ValidationError
      | Some m \<Rightarrow> enum_return E m)"
| "EnumNode_validate_and_convert E v = Inl ValidationError"

text \<open>The abstract method, dispatched on the concrete class of the node.\<close>

fun validate_and_convert :: "builtins \<Rightarrow> node_kind \<Rightarrow> pyval \<Rightarrow> error + pyval" where
  "validate_and_convert B AnyK v = AnyNode_validate_and_convert v"
| "validate_and_convert B StringK v = StringNode_validate_and_convert B v"
| "validate_and_convert B IntegerK v = IntegerNode_validate_and_convert v"
| "validate_and_convert B FloatK v = FloatNode_validate_and_convert B v"
| "validate_and_convert B BooleanK v = BooleanNode_validate_and_convert v"
| "validate_and_convert B (EnumK E) v = EnumNode_validate_and_convert E v"

definition ValueNode_value :: "ValueNode \<Rightarrow> pyval" where
  "ValueNode_value n = val n"

text \<open>
  \<^verbatim>\<open>ValueNode.set_value\<close>: the node after the call, or the exception raised (the node is
  then as it was).
\<close>

definition is_placeholder :: "(string \<Rightarrow> ValueKind) \<Rightarrow> pyval \<Rightarrow> bool" where
  "is_placeholder gvk v =
     (case v of
        PStr s \<Rightarrow> gvk s = INTERPOLATION \<or> gvk s = MANDATORY_MISSING
      | _ \<Rightarrow> False)"

definition set_value ::
  "builtins \<Rightarrow> (string \<Rightarrow> ValueKind) \<Rightarrow> ValueNode \<Rightarrow> pyval \<Rightarrow> error + ValueNode" where
  "set_value B gvk n v =
     (if is_placeholder gvk v then Inr (n\<lparr>val := v\<rparr>)
      else if \<not> is_optional n \<and> v = PNone then Inl ValidationError
      else (case validate_and_convert B (kind n) v of
              Inl e \<Rightarrow> Inl e
            | Inr w \<Rightarrow> Inr (n\<lparr>val := w\<rparr>)))"

text \<open>
  The constructors. \<^verbatim>\<open>AnyNode.__init__\<close> overwrites \<open>is_optional\<close> with \<open>True\<close> before
  it assigns; the others keep the argument; \<^verbatim>\<open>EnumNode.__init__\<close> takes no value.
\<close>

definition AnyNode ::
  "builtins \<Rightarrow> (string \<Rightarrow> ValueKind) \<Rightarrow> pyval \<Rightarrow> bool \<Rightarrow> error + ValueNode" where
  "AnyNode B gvk v opt =
     set_value B gvk (\<lparr>kind = AnyK, is_optional = opt, val = PNone\<rparr>\<lparr>is_optional := True\<rparr>) v"

definition StringNode ::
  "builtins \<Rightarrow> (string \<Rightarrow> ValueKind) \<Rightarrow> pyval \<Rightarrow> bool \<Rightarrow> error + ValueNode" where
  "StringNode B gvk v opt = set_value B gvk \<lparr>kind = StringK, is_optional = opt, val = PNone\<rparr> v"

definition IntegerNode ::
  "builtins \<Rightarrow> (string \<Rightarrow> ValueKind) \<Rightarrow> pyval \<Rightarrow> bool \<Rightarrow> error + ValueNode" where
  "IntegerNode B gvk v opt = set_value B gvk \<lparr>kind = IntegerK, is_optional = opt, val = PNone\<rparr> v"

definition FloatNode ::
  "builtins \<Rightarrow> (string \<Rightarrow> ValueKind) \<Rightarrow> pyval \<Rightarrow> bool \<Rightarrow> error + ValueNode" where
  "FloatNode B gvk v opt = set_value B gvk \<lparr>kind = FloatK, is_optional = opt, val = PNone\<rparr> v"

definition BooleanNode ::
  "builtins \<Rightarrow> (string \<Rightarrow> ValueKind) \<Rightarrow> pyval \<Rightarrow> bool \<Rightarrow> error + ValueNode" where
  "BooleanNode B gvk v opt = set_value B gvk \<lparr>kind = BooleanK, is_optional = opt, val = PNone\<rparr> v"

definition EnumNode :: "enum_type \<Rightarrow> bool \<Rightarrow> ValueNode" where
  "EnumNode E opt = \<lparr>kind = EnumK E, is_optional = opt, val = PNone\<rparr>"

text \<open>
  \<^verbatim>\<open>FloatNode.__eq__\<close>. The other operand is a raw value or a scalar node; the three
  tests on none look at the operand itself (\<^verbatim>\<open>other is None\<close>), the comparison at the
  end at its extracted value.
\<close>

datatype operand = Raw pyval | Node ValueNode

definition FloatNode_eq :: "builtins \<Rightarrow> ValueNode \<Rightarrow> operand \<Rightarrow> bool" where
  "FloatNode_eq B n other =
     (let other_val = (case other of Node m \<Rightarrow> val m | Raw v \<Rightarrow> v) in
      if val n = PNone \<and> other = Raw PNone then True
      else if val n = PNone \<and> other \<noteq> Raw PNone then False
      else if val n \<noteq> PNone \<and> other = Raw PNone then False
      else
        (let nan1 = (case val n of PFloat f \<Rightarrow> isnan f | _ \<Rightarrow> False);
             nan2 = (case other_val of PFloat f \<Rightarrow> isnan f | _ \<Rightarrow> False)
         in py_eq B (val n) other_val \<or> (nan1 \<and> nan2)))"

text \<open>
  What Python's \<^verbatim>\<open>Enum\<close> guarantees of a class: the canonical name of a member is one of
  the names, and denotes that member.
\<close>

definition enum_wf :: "enum_type \<Rightarrow> bool" where
  "enum_wf E = list_all (\<lambda>p. map_of (members E) (snd p) = Some (snd p)) (members E)"

fun kind_wf :: "node_kind \<Rightarrow> bool" where
  "kind_wf (EnumK E) = enum_wf E"
| "kind_wf k = True"

text \<open>Concrete instances of the parameters, for the examples.\<close>

definition no_floats :: builtins where
  "no_floats = \<lparr>float_of_str = (\<lambda>s. None), float_of_int = (\<lambda>i. None),
     str_of_float = (\<lambda>f. ''nan''), str_of_obj = (\<lambda>n. ''<object>''), py_eq = (\<lambda>a b. a = b),
     arrangement = (\<lambda>ks r. [0..<length ks])\<rparr>"

definition marker_only :: "string \<Rightarrow> ValueKind" where
  "marker_only s = (if s = ''???'' then MANDATORY_MISSING else VALUE)"

definition Color :: enum_type where
  "Color = \<lparr>enum_name = ''Color'',
     members = [(''RED'', ''RED''), (''GREEN'', ''GREEN''), (''CRIMSON'', ''RED'')],
     int_values = [(1, ''RED''), (2, ''GREEN'')]\<rparr>"

section \<open>The sequence container of \<^verbatim>\<open>listconfig.py\<close>\<close>

subsection \<open>Python's list operations\<close>

text \<open>
  An index counts from the end when it is negative; out of range it is \<^verbatim>\<open>IndexError\<close>
  (\<open>None\<close>), except for \<^verbatim>\<open>list.insert\<close>, which clamps it to the ends of the list.
\<close>

definition norm_index :: "nat \<Rightarrow> int \<Rightarrow> nat option" where
  "norm_index n i =
     (let j = (if i < 0 then i + int n else i)
      in if 0 \<le> j \<and> j < int n then Some (nat j) else None)"

definition list_insert :: "'a list \<Rightarrow> int \<Rightarrow> 'a \<Rightarrow> 'a list" where
  "list_insert xs i x =
     (let n = int (length xs);
          j = (if i < 0 then max 0 (i + n) else min i n)
      in take (nat j) xs @ x # drop (nat j) xs)"

definition list_delete :: "'a list \<Rightarrow> int \<Rightarrow> 'a list option" where
  "list_delete xs i =
     (case norm_index (length xs) i of
        None \<Rightarrow> None
      | Some j \<Rightarrow> Some (take j xs @ drop (Suc j) xs))"

definition list_set :: "'a list \<Rightarrow> int \<Rightarrow> 'a \<Rightarrow> 'a list option" where
  "list_set xs i x =
     (case norm_index (length xs) i of
        None \<Rightarrow> None
      | Some j \<Rightarrow> Some (xs[j := x]))"

definition list_pop :: "'a list \<Rightarrow> int \<Rightarrow> ('a \<times> 'a list) option" where
  "list_pop xs i =
     (case norm_index (length xs) i of
        None \<Rightarrow> None
      | Some j \<Rightarrow> Some (xs ! j, take j xs @ drop (Suc j) xs))"

text \<open>
  Python's \<^verbatim>\<open><\<close> orders ints and bools by their value and strings by their code points;
  it orders floats with them as numbers; between any other two raw values (none, an enum
  member, an object, a number and a string) it raises \<^verbatim>\<open>TypeError\<close>. The caller's key
  function of a sort is a total function on raw values: one that raises is not modelled.
\<close>

fun is_int_like :: "pyval \<Rightarrow> bool" where
  "is_int_like (PInt i) = True"
| "is_int_like (PBool b) = True"
| "is_int_like v = False"

fun is_number :: "pyval \<Rightarrow> bool" where
  "is_number (PFloat f) = True"
| "is_number v = is_int_like v"

fun is_str :: "pyval \<Rightarrow> bool" where
  "is_str (PStr s) = True"
| "is_str v = False"

fun int_key :: "pyval \<Rightarrow> int" where
  "int_key (PInt i) = i"
| "int_key (PBool b) = (if b then 1 else 0)"
| "int_key v = 0"

fun str_key :: "pyval \<Rightarrow> string" where
  "str_key (PStr s) = s"
| "str_key v = []"

text \<open>
  A stable sort by a key in a linear order; with \<^verbatim>\<open>reverse\<close> the order is descending and
  elements of equal keys still keep their order.
\<close>

definition stable_sort :: "('a \<Rightarrow> 'k::linorder) \<Rightarrow> bool \<Rightarrow> 'a list \<Rightarrow> 'a list" where
  "stable_sort k reverse xs = (if reverse then rev (sort_key k (rev xs)) else sort_key k xs)"

text \<open>A list in the order of an arrangement of its positions.\<close>

definition arrange :: "nat list \<Rightarrow> 'a list \<Rightarrow> 'a list" where
  "arrange perm xs = (if sort perm = [0..<length xs] then map (\<lambda>i. xs ! i) perm else xs)"

text \<open>
  \<^verbatim>\<open>list.sort(key=k, reverse=r)\<close> on a list of elements with their keys: the exception
  raised, if any, and the list as the call leaves it. A list of at most one element is
  not compared. Keys that are all ints and bools, or all strings, are sorted stably. Keys
  that are all numbers, some of them floats, are sorted without an exception, in an order
  that depends on the floats (\<open>arrangement\<close>). With any other keys a comparison raises
  \<^verbatim>\<open>TypeError\<close>, and the list is left in the order the sort had reached (\<open>arrangement\<close>),
  which need not be the order before the call.
\<close>

definition py_list_sort ::
  "builtins \<Rightarrow> bool \<Rightarrow> (pyval \<times> 'a) list \<Rightarrow> error option \<times> (pyval \<times> 'a) list" where
  "py_list_sort B reverse ks =
     (if length ks \<le> 1 then (None, ks)
      else if list_all (\<lambda>p. is_int_like (fst p)) ks then
        (None, stable_sort (\<lambda>p. int_key (fst p)) reverse ks)
      else if list_all (\<lambda>p. is_str (fst p)) ks then
        (None, stable_sort (\<lambda>p. str_key (fst p)) reverse ks)
      else if list_all (\<lambda>p. is_number (fst p)) ks then
        (None, arrange (arrangement B (map fst ks) reverse) ks)
      else (Some TypeError, arrange (arrangement B (map fst ks) reverse) ks))"

subsection \<open>Nodes, containers and flags\<close>

text \<open>
  A child of a container is a scalar node or a container of its own, with its flags, its
  element type and its children. The parent of a child is the container that holds it.
\<close>

datatype node = VNode ValueNode | CNode container
and container = Container "(string \<times> bool) list" node_kind "node list"

text \<open>What a caller passes in and reads back: a raw value or a container.\<close>

datatype item = Plain pyval | Cfg container

text \<open>
  \<^verbatim>\<open>copy.deepcopy\<close> of a container followed by \<^verbatim>\<open>_set_parent\<close>: the copy has the flags,
  the element type and the children of the original, and its parent is the container that
  receives it. With containers as values and the parent implicit, the copy is the value.
\<close>

abbreviation (input) deepcopy :: "container \<Rightarrow> container" where
  "deepcopy k \<equiv> k"

text \<open>
  The container an operation is called on. \<open>parent\<close> is the chain of its ancestors, the
  nearest first, each given by its flag mapping; a root has none.
\<close>

record ListConfig =
  content :: "node list"
  element_type :: node_kind
  flags :: "(string \<times> bool) list"
  parent :: "(string \<times> bool) list list"

text \<open>
  Modelled from the spec: \<^verbatim>\<open>Node._get_flag\<close> of \<^verbatim>\<open>base.py\<close> is not among the sources.
  The spec: check the local flag mapping; if absent, delegate to the parent's lookup; with
  no parent, the flag is unset.
\<close>

fun get_flag_chain :: "(string \<times> bool) list list \<Rightarrow> string \<Rightarrow> bool option" where
  "get_flag_chain [] name = None"
| "get_flag_chain (f # up) name =
     (case map_of f name of Some b \<Rightarrow> Some b | None \<Rightarrow> get_flag_chain up name)"

definition get_flag :: "ListConfig \<Rightarrow> string \<Rightarrow> bool option" where
  "get_flag c name = get_flag_chain (flags c # parent c) name"

text \<open>The test \<^verbatim>\<open>if self._get_flag("readonly")\<close>: none and false are both falsy.\<close>

definition readonly :: "ListConfig \<Rightarrow> bool" where
  "readonly c = (get_flag c ''readonly'' = Some True)"

text \<open>
  What the container takes from outside: the resolver's classification of a string, the
  full path of a key of a container (\<^verbatim>\<open>get_full_key\<close>), and the resolution of a stored
  node on a read (\<^verbatim>\<open>_resolve_with_default\<close>, called with the container, the key, the node and
  the default value).
\<close>

record hooks =
  get_value_kind :: "string \<Rightarrow> ValueKind"
  get_full_key :: "ListConfig \<Rightarrow> string \<Rightarrow> string"
  resolve_with_default :: "ListConfig \<Rightarrow> int \<Rightarrow> node \<Rightarrow> pyval \<Rightarrow> error + item"

text \<open>
  Modelled from the spec: \<^verbatim>\<open>omegaconf._maybe_wrap\<close> is not among the sources. The spec:
  a raw value that is no container is wrapped into a new scalar node of the element type
  (or Any); a container is deep-copied and its parent becomes this container.
\<close>

definition node_wrap ::
  "builtins \<Rightarrow> (string \<Rightarrow> ValueKind) \<Rightarrow> node_kind \<Rightarrow> bool \<Rightarrow> pyval \<Rightarrow> error + ValueNode" where
  "node_wrap B gvk k opt v =
     (case k of
        AnyK \<Rightarrow> AnyNode B gvk v opt
      | StringK \<Rightarrow> StringNode B gvk v opt
      | IntegerK \<Rightarrow> IntegerNode B gvk v opt
      | FloatK \<Rightarrow> FloatNode B gvk v opt
      | BooleanK \<Rightarrow> BooleanNode B gvk v opt
      | EnumK E \<Rightarrow> set_value B gvk (EnumNode E opt) v)"

definition maybe_wrap ::
  "builtins \<Rightarrow> (string \<Rightarrow> ValueKind) \<Rightarrow> node_kind \<Rightarrow> item \<Rightarrow> bool \<Rightarrow> error + node" where
  "maybe_wrap B gvk annotated_type x opt =
     (case x of
        Cfg k \<Rightarrow> Inr (CNode (deepcopy k))
      | Plain v \<Rightarrow>
          (case node_wrap B gvk annotated_type opt v of
             Inl e \<Rightarrow> Inl e
           | Inr n \<Rightarrow> Inr (VNode n)))"

text \<open>
  Modelled from the spec: \<^verbatim>\<open>BaseContainer._set_item_impl\<close> is not among the sources. The
  spec: the value is wrapped as above and becomes the element at the index; the
  assignment to a list raises \<^verbatim>\<open>IndexError\<close> out of range.
\<close>

definition set_item_impl ::
  "builtins \<Rightarrow> hooks \<Rightarrow> ListConfig \<Rightarrow> int \<Rightarrow> item \<Rightarrow> (error + unit) \<times> ListConfig" where
  "set_item_impl B H c i x =
     (case maybe_wrap B (get_value_kind H) (element_type c) x True of
        Inl e \<Rightarrow> (Inl e, c)
      | Inr nd \<Rightarrow>
          (case list_set (content c) i nd of
             None \<Rightarrow> (Inl IndexError, c)
           | Some xs \<Rightarrow> (Inr (), c\<lparr>content := xs\<rparr>)))"

subsection \<open>The operations\<close>

text \<open>
  Every operation returns its result or exception together with the container as the call
  leaves it, since an exception does not undo what was done before it.
\<close>

definition len :: "ListConfig \<Rightarrow> int" where
  "len c = int (length (content c))"

text \<open>\<^verbatim>\<open>isinstance(index, int)\<close>: a bool is an int.\<close>

fun as_int :: "pyval \<Rightarrow> int option" where
  "as_int (PInt i) = Some i"
| "as_int (PBool b) = Some (if b then 1 else 0)"
| "as_int v = None"

text \<open>
  \<^verbatim>\<open>_set_at_index\<close>: the key check, the read-only check, the deep copy of a value that
  is a container, and the assignment, whose \<^verbatim>\<open>UnsupportedValueType\<close> is raised again with
  the full key.
\<close>

definition set_at_index ::
  "builtins \<Rightarrow> hooks \<Rightarrow> ListConfig \<Rightarrow> pyval \<Rightarrow> item \<Rightarrow> (error + unit) \<times> ListConfig" where
  "set_at_index B H c index x =
     (case as_int index of
        None \<Rightarrow> (Inl UnsupportedKeyType, c)
      | Some i \<Rightarrow>
          if readonly c then
            (Inl (ReadonlyConfigError (Some (get_full_key H c (py_str B index)))), c)
          else
            (let v = (case x of Cfg k \<Rightarrow> Cfg (deepcopy k) | Plain w \<Rightarrow> x) in
             case set_item_impl B H c i v of
               (Inl (UnsupportedValueType m), c') \<Rightarrow>
                 (Inl (UnsupportedValueType (Some (get_full_key H c' (py_str B index)))), c')
             | r \<Rightarrow> r))"

definition ListConfig_setitem ::
  "builtins \<Rightarrow> hooks \<Rightarrow> ListConfig \<Rightarrow> pyval \<Rightarrow> item \<Rightarrow> (error + unit) \<times> ListConfig" where
  "ListConfig_setitem B H c index x = set_at_index B H c index x"

definition ListConfig_append ::
  "builtins \<Rightarrow> hooks \<Rightarrow> ListConfig \<Rightarrow> item \<Rightarrow> (error + unit) \<times> ListConfig" where
  "ListConfig_append B H c x =
     (if readonly c then
        (Inl (ReadonlyConfigError (Some (get_full_key H c (str_of_int (len c))))), c)
      else
        (case maybe_wrap B (get_value_kind H) (element_type c) x True of
           Inr nd \<Rightarrow> (Inr (), c\<lparr>content := content c @ [nd]\<rparr>)
         | Inl (UnsupportedValueType m) \<Rightarrow>
             (Inl (UnsupportedValueType (Some (get_full_key H c (str_of_int (len c))))), c)
         | Inl e \<Rightarrow> (Inl e, c)))"

text \<open>
  \<^verbatim>\<open>insert\<close>: the handler deletes the element at the index it was given and raises the
  exception again; when the deletion itself raises, that exception is the one that leaves.
\<close>

definition insert_rollback ::
  "error \<Rightarrow> ListConfig \<Rightarrow> int \<Rightarrow> (error + unit) \<times> ListConfig" where
  "insert_rollback e c index =
     (case list_delete (content c) index of
        None \<Rightarrow> (Inl IndexError, c)
      | Some xs \<Rightarrow> (Inl e, c\<lparr>content := xs\<rparr>))"

definition ListConfig_insert ::
  "builtins \<Rightarrow> hooks \<Rightarrow> ListConfig \<Rightarrow> int \<Rightarrow> item \<Rightarrow> (error + unit) \<times> ListConfig" where
  "ListConfig_insert B H c index x =
     (if readonly c then
        (Inl (ReadonlyConfigError (Some (get_full_key H c (str_of_int index)))), c)
      else
        (case AnyNode B (get_value_kind H) PNone True of
           Inl e \<Rightarrow> insert_rollback e c index
         | Inr placeholder \<Rightarrow>
             (case set_at_index B H
                     (c\<lparr>content := list_insert (content c) index (VNode placeholder)\<rparr>)
                     (PInt index) x of
                (Inl e, c') \<Rightarrow> insert_rollback e c' index
              | (Inr u, c') \<Rightarrow> (Inr (), c'))))"

fun ListConfig_extend ::
  "builtins \<Rightarrow> hooks \<Rightarrow> ListConfig \<Rightarrow> item list \<Rightarrow> (error + unit) \<times> ListConfig" where
  "ListConfig_extend B H c [] = (Inr (), c)"
| "ListConfig_extend B H c (x # xs) =
     (case ListConfig_append B H c x of
        (Inl e, c') \<Rightarrow> (Inl e, c')
      | (Inr u, c') \<Rightarrow> ListConfig_extend B H c' xs)"

text \<open>\<^verbatim>\<open>__init__\<close>: the flags start empty, the items are appended one by one.\<close>

definition ListConfig_init ::
  "builtins \<Rightarrow> hooks \<Rightarrow> item list \<Rightarrow> (string \<times> bool) list list \<Rightarrow> node_kind \<Rightarrow>
     (error + unit) \<times> ListConfig" where
  "ListConfig_init B H items par et =
     ListConfig_extend B H \<lparr>content = [], element_type = et, flags = [], parent = par\<rparr> items"

text \<open>\<^verbatim>\<open>__iter__\<close>: a scalar node yields its stored value, a container itself.\<close>

fun unwrap :: "node \<Rightarrow> item" where
  "unwrap (VNode n) = Plain (ValueNode_value n)"
| "unwrap (CNode k) = Cfg k"

definition ListConfig_iter :: "ListConfig \<Rightarrow> item list" where
  "ListConfig_iter c = map unwrap (content c)"

text \<open>
  \<^verbatim>\<open>index\<close>, for a raw value \<open>x\<close>: \<^verbatim>\<open>x == item\<close> is Python's equality on two raw values,
  and false against a container (whose \<^verbatim>\<open>__eq__\<close> answers \<^verbatim>\<open>NotImplemented\<close> to what is
  neither a list nor a container).
\<close>

fun item_eq :: "builtins \<Rightarrow> pyval \<Rightarrow> item \<Rightarrow> bool" where
  "item_eq B x (Plain v) = py_eq B x v"
| "item_eq B x (Cfg k) = False"

fun find_index :: "('a \<Rightarrow> bool) \<Rightarrow> 'a list \<Rightarrow> nat option" where
  "find_index P [] = None"
| "find_index P (y # ys) = (if P y then Some 0 else map_option Suc (find_index P ys))"

definition ListConfig_index :: "builtins \<Rightarrow> ListConfig \<Rightarrow> pyval \<Rightarrow> error + int" where
  "ListConfig_index B c x =
     (case find_index (item_eq B x) (ListConfig_iter c) of
        None \<Rightarrow> Inl ValueError
      | Some i \<Rightarrow> Inr (int i))"

text \<open>
  Modelled from the spec: \<^verbatim>\<open>BaseContainer.__delitem__\<close> is not among the sources. The
  spec's write path: fail with \<^verbatim>\<open>ReadonlyConfigError\<close>, carrying the full path of the key,
  if the read-only flag is set, before any mutation; then the element (or, for the slice
  \<^verbatim>\<open>[:]\<close>, every element) is deleted from the content.
\<close>

datatype del_key = Index int | FullSlice

fun key_str :: "del_key \<Rightarrow> string" where
  "key_str (Index i) = str_of_int i"
| "key_str FullSlice = ''slice(None, None, None)''"

definition delitem :: "hooks \<Rightarrow> ListConfig \<Rightarrow> del_key \<Rightarrow> (error + unit) \<times> ListConfig" where
  "delitem H c k =
     (if readonly c then (Inl (ReadonlyConfigError (Some (get_full_key H c (key_str k)))), c)
      else
        (case k of
           FullSlice \<Rightarrow> (Inr (), c\<lparr>content := []\<rparr>)
         | Index i \<Rightarrow>
             (case list_delete (content c) i of
                None \<Rightarrow> (Inl IndexError, c)
              | Some xs \<Rightarrow> (Inr (), c\<lparr>content := xs\<rparr>))))"

definition ListConfig_remove ::
  "builtins \<Rightarrow> hooks \<Rightarrow> ListConfig \<Rightarrow> pyval \<Rightarrow> (error + unit) \<times> ListConfig" where
  "ListConfig_remove B H c x =
     (case ListConfig_index B c x of
        Inl e \<Rightarrow> (Inl e, c)
      | Inr i \<Rightarrow> delitem H c (Index i))"

definition ListConfig_clear :: "hooks \<Rightarrow> ListConfig \<Rightarrow> (error + unit) \<times> ListConfig" where
  "ListConfig_clear H c = delitem H c FullSlice"

text \<open>
  \<^verbatim>\<open>pop\<close>: the argument \<^verbatim>\<open>self.content.pop(index)\<close> is evaluated, so the element is out of
  the list, before \<^verbatim>\<open>_resolve_with_default\<close> is called on it.
\<close>

definition pop_key :: "int \<Rightarrow> string" where
  "pop_key index = (if index \<noteq> - 1 then str_of_int index else [])"

definition ListConfig_pop ::
  "hooks \<Rightarrow> ListConfig \<Rightarrow> int \<Rightarrow> (error + item) \<times> ListConfig" where
  "ListConfig_pop H c index =
     (if readonly c then
        (Inl (ReadonlyConfigError (Some (get_full_key H c (pop_key index)))), c)
      else
        (case list_pop (content c) index of
           None \<Rightarrow> (Inl IndexError, c)
         | Some (nd, xs) \<Rightarrow>
             (resolve_with_default H (c\<lparr>content := xs\<rparr>) index nd PNone, c\<lparr>content := xs\<rparr>)))"

text \<open>
  \<^verbatim>\<open>sort\<close>: the key of an element is \<^verbatim>\<open>x.value()\<close>, through the caller's function when
  there is one. A child that is a container has no \<^verbatim>\<open>value\<close>: its \<^verbatim>\<open>__getattr__\<close> raises
  \<^verbatim>\<open>AttributeError\<close>. The keys are all computed before the list is reordered; an exception
  of a comparison leaves the list reordered as far as the sort had come.
\<close>

fun key1 :: "(pyval \<Rightarrow> pyval) option \<Rightarrow> node \<Rightarrow> error + pyval" where
  "key1 None (VNode n) = Inr (ValueNode_value n)"
| "key1 (Some f) (VNode n) = Inr (f (ValueNode_value n))"
| "key1 key (CNode k) = Inl AttributeError"

fun keys_of :: "(pyval \<Rightarrow> pyval) option \<Rightarrow> node list \<Rightarrow> error + (pyval \<times> node) list" where
  "keys_of key [] = Inr []"
| "keys_of key (x # xs) =
     (case key1 key x of
        Inl e \<Rightarrow> Inl e
      | Inr k \<Rightarrow> (case keys_of key xs of Inl e \<Rightarrow> Inl e | Inr ks \<Rightarrow> Inr ((k, x) # ks)))"

definition ListConfig_sort ::
  "builtins \<Rightarrow> ListConfig \<Rightarrow> (pyval \<Rightarrow> pyval) option \<Rightarrow> bool \<Rightarrow> (error + unit) \<times> ListConfig" where
  "ListConfig_sort B c key reverse =
     (if readonly c then (Inl (ReadonlyConfigError None), c)
      else
        (case keys_of key (content c) of
           Inl e \<Rightarrow> (Inl e, c)
         | Inr ks \<Rightarrow>
             (case py_list_sort B reverse ks of
                (None, ks') \<Rightarrow> (Inr (), c\<lparr>content := map snd ks'\<rparr>)
              | (Some e, ks') \<Rightarrow> (Inl e, c\<lparr>content := map snd ks'\<rparr>))))"


subsection \<open>Instances of the hooks and containers for the examples\<close>

text \<open>
  A resolver for the examples: \<^verbatim>\<open>???\<close> is the mandatory-missing marker, a string that
  starts with \<^verbatim>\<open>${\<close> an interpolation. Reading a node that holds the marker raises
  \<^verbatim>\<open>MissingMandatoryValue\<close> (the exception \<^verbatim>\<open>__init__.py\<close> exports), the interpolation
  \<^verbatim>\<open>${z}\<close> resolves to the string \<^verbatim>\<open>z\<close>, any other scalar node is unwrapped and a
  container is returned as it is. The full key of a key is the key itself.
\<close>

definition example_kind :: "string \<Rightarrow> ValueKind" where
  "example_kind s =
     (if s = ''???'' then MANDATORY_MISSING
      else if startswith s ''${'' then INTERPOLATION
      else VALUE)"

definition example_resolve :: "ListConfig \<Rightarrow> int \<Rightarrow> node \<Rightarrow> pyval \<Rightarrow> error + item" where
  "example_resolve c key nd default_value =
     (case nd of
        CNode k \<Rightarrow> Inr (Cfg k)
      | VNode n \<Rightarrow>
          if val n = PStr ''???'' then Inl (MissingMandatoryValue (str_of_int key))
          else if val n = PStr ''${z}'' then Inr (Plain (PStr ''z''))
          else Inr (Plain (val n)))"

definition example_hooks :: hooks where
  "example_hooks = \<lparr>get_value_kind = example_kind, get_full_key = (\<lambda>c k. k),
     resolve_with_default = example_resolve\<rparr>"

definition any_node :: "pyval \<Rightarrow> node" where
  "any_node v = VNode \<lparr>kind = AnyK, is_optional = True, val = v\<rparr>"

definition root_list :: "node_kind \<Rightarrow> node list \<Rightarrow> ListConfig" where
  "root_list et xs = \<lparr>content = xs, element_type = et, flags = [], parent = []\<rparr>"

text \<open>A container that is read-only through the flag of its grandparent.\<close>

definition inherited_readonly :: ListConfig where
  "inherited_readonly = \<lparr>content = [any_node (PInt 1), any_node (PInt 2)], element_type = AnyK,
     flags = [], parent = [[], [(''readonly'', True)]]\<rparr>"



section \<open>Properties of the scalar nodes\<close>

subsection \<open>Assignment\<close>

text \<open>
  Claim C1. For every scalar node and every raw input \<open>v\<close>, \<open>set_value\<close> stores \<open>v\<close>
  verbatim when \<open>v\<close> is a string that the resolver hook classifies as an interpolation
  or as the mandatory-missing marker; otherwise it raises \<^verbatim>\<open>ValidationError\<close> when \<open>v\<close> is
  none and the node is not optional; otherwise it raises what \<open>validate_and_convert\<close>
  raises, or stores exactly what \<open>validate_and_convert\<close> returns.
\<close>

theorem set_value_spec:
  "((\<exists>s. v = PStr s \<and> (gvk s = INTERPOLATION \<or> gvk s = MANDATORY_MISSING)) \<longrightarrow>
      set_value B gvk n v = Inr (n\<lparr>val := v\<rparr>)) \<and>
   (\<not> (\<exists>s. v = PStr s \<and> (gvk s = INTERPOLATION \<or> gvk s = MANDATORY_MISSING)) \<longrightarrow>
      (v = PNone \<and> \<not> is_optional n \<longrightarrow> set_value B gvk n v = Inl ValidationError) \<and>
      (\<not> (v = PNone \<and> \<not> is_optional n) \<longrightarrow>
         (\<forall>e. validate_and_convert B (kind n) v = Inl e \<longrightarrow> set_value B gvk n v = Inl e) \<and>
         (\<forall>w. validate_and_convert B (kind n) v = Inr w \<longrightarrow>
            set_value B gvk n v = Inr (n\<lparr>val := w\<rparr>))))"
  by (cases v) (auto simp: set_value_def is_placeholder_def)

theorem set_value_spec_witness:
  "set_value no_floats marker_only \<lparr>kind = IntegerK, is_optional = False, val = PInt 7\<rparr>
       (PStr ''???'')
     = Inr \<lparr>kind = IntegerK, is_optional = False, val = PStr ''???''\<rparr> \<and>
   set_value no_floats marker_only \<lparr>kind = IntegerK, is_optional = False, val = PInt 7\<rparr> PNone
     = Inl ValidationError \<and>
   set_value no_floats marker_only \<lparr>kind = IntegerK, is_optional = False, val = PInt 7\<rparr>
       (PStr ''12'')
     = Inr \<lparr>kind = IntegerK, is_optional = False, val = PInt 12\<rparr> \<and>
   set_value no_floats marker_only \<lparr>kind = IntegerK, is_optional = False, val = PInt 7\<rparr>
       (PStr ''x'')
     = Inl ValidationError"
proof -
  let ?n = "\<lparr>kind = IntegerK, is_optional = False, val = PInt 7\<rparr>"
  have i12: "int_of_str ''12'' = Some 12"
    by (simp add: int_of_str_def strip_def is_space_def parse_nat_def is_digit_def digit_val_def)
  have ix: "int_of_str ''x'' = None"
    by (simp add: int_of_str_def strip_def is_space_def parse_nat_def is_digit_def digit_val_def)
  show ?thesis
    using set_value_spec [of "PStr ''???''" marker_only no_floats ?n]
      set_value_spec [of PNone marker_only no_floats ?n]
      set_value_spec [of "PStr ''12''" marker_only no_floats ?n]
      set_value_spec [of "PStr ''x''" marker_only no_floats ?n]
    by (simp add: marker_only_def i12 ix)
qed

subsection \<open>Boolean canonicalization\<close>














subsection \<open>Optional nodes and equality with none\<close>

text \<open>
  Claim C9. An \<^verbatim>\<open>AnyNode\<close> that its constructor returns is optional whatever the
  \<open>is_optional\<close> argument was, so assigning none to it succeeds and \<open>value()\<close> is none
  afterwards: the constructor makes no non-optional \<^verbatim>\<open>AnyNode\<close>.
\<close>

theorem anynode_always_optional:
  "AnyNode B gvk v opt = Inr n \<Longrightarrow>
     is_optional n \<and> kind n = AnyK \<and>
     (\<exists>n'. set_value B gvk n PNone = Inr n' \<and> ValueNode_value n' = PNone)"
  by (auto simp: AnyNode_def set_value_def is_placeholder_def AnyNode_validate_and_convert_def
      ValueNode_value_def split: if_splits sum.splits)

theorem anynode_always_optional_witness:
  "AnyNode no_floats marker_only (PInt 3) False
     = Inr \<lparr>kind = AnyK, is_optional = True, val = PInt 3\<rparr> \<and>
   is_optional \<lparr>kind = AnyK, is_optional = True, val = PInt 3\<rparr> \<and>
   (\<exists>n'. set_value no_floats marker_only \<lparr>kind = AnyK, is_optional = True, val = PInt 3\<rparr> PNone
            = Inr n' \<and>
      ValueNode_value n' = PNone)"
proof -
  have c: "AnyNode no_floats marker_only (PInt 3) False =
      Inr \<lparr>kind = AnyK, is_optional = True, val = PInt 3\<rparr>"
    by (simp add: AnyNode_def set_value_def is_placeholder_def AnyNode_validate_and_convert_def)
  show ?thesis using anynode_always_optional [OF c] c by blast
qed

text \<open>
  Claim C10. A \<^verbatim>\<open>FloatNode\<close> equals the raw value none exactly when its stored value is
  none, but two \<^verbatim>\<open>FloatNode\<close>s that both store none are not equal: the tests on none look
  at the other operand, which is a node and not none, and not at its stored value.
\<close>

theorem floatnode_eq_none:
  "FloatNode_eq B n (Raw PNone) = (val n = PNone) \<and>
   FloatNode_eq B (n\<lparr>val := PNone\<rparr>) (Node (m\<lparr>val := PNone\<rparr>)) = False"
  by (simp add: FloatNode_eq_def)

subsection \<open>Canonical values are fixed points\<close>

lemma enum_return_fixed:
  assumes "enum_wf E" "enum_return E key = Inr y"
  shows "EnumNode_validate_and_convert E y = Inr y"
proof -
  obtain m where m: "map_of (members E) key = Some m" "y = PEnum (enum_name E) m"
    using assms(2) by (auto simp: enum_return_def enum_by_name_def split: if_splits option.splits)
  have "(key, m) \<in> set (members E)" using m(1) by (rule map_of_SomeD)
  then have mm: "map_of (members E) m = Some m"
    using assms(1) by (auto simp: enum_wf_def list_all_iff)
  then have "m \<in> set (map fst (members E))"
    by (metis map_of_eq_None_iff option.distinct(1) set_map)
  then show ?thesis using m(2) mm by (simp add: enum_return_def enum_by_name_def)
qed

lemma enum_fixed:
  assumes "enum_wf E" "EnumNode_validate_and_convert E x = Inr y"
  shows "EnumNode_validate_and_convert E y = Inr y"
proof (cases x)
  case PNone
  then show ?thesis using assms by simp
next
  case (PEnum t m)
  then show ?thesis using assms enum_return_fixed by (auto split: if_splits)
next
  case (PStr s)
  then show ?thesis using assms enum_return_fixed
    by (auto simp: Let_def split: option.splits)
next
  case (PInt i)
  then show ?thesis using assms enum_return_fixed by (auto split: option.splits)
qed (use assms in auto)

lemma boolean_fixed:
  assumes "BooleanNode_validate_and_convert x = Inr y"
  shows "BooleanNode_validate_and_convert y = Inr y"
  using assms by (cases x) (auto split: option.splits if_splits)

lemma integer_fixed:
  assumes "IntegerNode_validate_and_convert x = Inr y"
  shows "IntegerNode_validate_and_convert y = Inr y"
  using assms by (cases x) (auto split: option.splits)

lemma float_fixed:
  assumes "FloatNode_validate_and_convert B x = Inr y"
  shows "FloatNode_validate_and_convert B y = Inr y"
  using assms by (cases x) (auto split: option.splits)

lemma string_fixed:
  assumes "StringNode_validate_and_convert B x = Inr y"
  shows "StringNode_validate_and_convert B y = Inr y"
  using assms by (auto simp: StringNode_validate_and_convert_def split: if_splits)

lemma any_fixed:
  assumes "AnyNode_validate_and_convert x = Inr y"
  shows "AnyNode_validate_and_convert y = Inr y"
  using assms by (auto simp: AnyNode_validate_and_convert_def split: if_splits)

text \<open>
  Claim C4. For each of the six kinds and every raw input \<open>x\<close> that the kind's
  \<open>validate_and_convert\<close> accepts, applying \<open>validate_and_convert\<close> to the output returns
  that output again. The equation is between values: a float output, a NaN too, is
  returned as the same float (Python's \<^verbatim>\<open>==\<close>, for which a NaN differs from itself, is not
  what is stated). An enum class is one that Python can build (\<open>kind_wf\<close>).
\<close>

theorem validate_and_convert_fixed_point:
  assumes "kind_wf k" "validate_and_convert B k x = Inr y"
  shows "validate_and_convert B k y = Inr y"
  using assms
  by (cases k) (auto intro: any_fixed string_fixed integer_fixed float_fixed boolean_fixed enum_fixed)

theorem validate_and_convert_fixed_point_witness:
  "kind_wf (EnumK Color) \<and>
   validate_and_convert no_floats (EnumK Color) (PStr ''Color.CRIMSON'')
     = Inr (PEnum ''Color'' ''RED'') \<and>
   validate_and_convert no_floats (EnumK Color) (PEnum ''Color'' ''RED'')
     = Inr (PEnum ''Color'' ''RED'')"
proof -
  have w: "kind_wf (EnumK Color)" by (simp add: enum_wf_def Color_def)
  have c: "validate_and_convert no_floats (EnumK Color) (PStr ''Color.CRIMSON'')
      = Inr (PEnum ''Color'' ''RED'')"
    by (simp add: Color_def enum_by_name_def enum_return_def)
  show ?thesis using validate_and_convert_fixed_point [OF w c] w c by simp
qed

section \<open>Properties of the sequence container\<close>

lemma readonly_content [simp]: "readonly (c\<lparr>content := xs\<rparr>) = readonly c"
  by (simp add: readonly_def get_flag_def)

lemma copied_value [simp]: "(case x of Plain w \<Rightarrow> x | Cfg k \<Rightarrow> Cfg k) = x"
  by (cases x) simp_all

lemma root_list_not_readonly: "\<not> readonly (root_list k xs)"
  by (simp add: readonly_def get_flag_def root_list_def)

subsection \<open>Appending and iterating\<close>

lemma any_wrap_primitive:
  assumes "is_primitive_type v"
  shows "maybe_wrap B gvk AnyK (Plain v) True = Inr (any_node v)"
  using assms
  by (auto simp: maybe_wrap_def node_wrap_def AnyNode_def set_value_def is_placeholder_def
      AnyNode_validate_and_convert_def any_node_def split: pyval.splits)

lemma append_any_primitive:
  assumes "\<not> readonly c" "element_type c = AnyK" "is_primitive_type v"
  shows "ListConfig_append B H c (Plain v) = (Inr (), c\<lparr>content := content c @ [any_node v]\<rparr>)"
  using assms by (simp add: ListConfig_append_def any_wrap_primitive)

lemma extend_any_primitives:
  assumes "\<not> readonly c" "element_type c = AnyK" "list_all is_primitive_type vs"
  shows "ListConfig_extend B H c (map Plain vs)
    = (Inr (), c\<lparr>content := content c @ map any_node vs\<rparr>)"
  using assms
proof (induction vs arbitrary: c)
  case Nil
  then show ?case by simp
next
  case (Cons v vs)
  let ?c = "c\<lparr>content := content c @ [any_node v]\<rparr>"
  have a: "ListConfig_append B H c (Plain v) = (Inr (), ?c)"
    using Cons.prems by (simp add: append_any_primitive)
  have "ListConfig_extend B H ?c (map Plain vs)
      = (Inr (), ?c\<lparr>content := content ?c @ map any_node vs\<rparr>)"
    using Cons.prems by (intro Cons.IH) simp_all
  then show ?case using a by simp
qed

text \<open>
  Claim C7, as the code has it. For every list of \<open>n\<close> primitive values, appending
  them one by one to an empty container whose element type is Any (the default) and which
  is not read-only succeeds, and iterating the container then yields exactly those \<open>n\<close>
  values in order, as raw values and not as nodes.
\<close>

theorem append_iter_round_trip:
  assumes "\<not> readonly c" "content c = []" "element_type c = AnyK"
    "list_all is_primitive_type vs"
  shows "\<exists>c'. ListConfig_extend B H c (map Plain vs) = (Inr (), c') \<and>
           ListConfig_iter c' = map Plain vs \<and> len c' = int (length vs)"
  using extend_any_primitives [OF assms(1) assms(3) assms(4), of B H] assms(2)
  by (simp add: ListConfig_iter_def any_node_def ValueNode_value_def len_def comp_def)

theorem append_iter_round_trip_witness:
  "\<not> readonly (root_list AnyK []) \<and> content (root_list AnyK []) = [] \<and>
   element_type (root_list AnyK []) = AnyK \<and>
   list_all is_primitive_type [PInt 1, PStr ''a'', PNone, PBool True] \<and>
   (\<exists>c'. ListConfig_extend no_floats example_hooks (root_list AnyK [])
            (map Plain [PInt 1, PStr ''a'', PNone, PBool True]) = (Inr (), c') \<and>
      ListConfig_iter c' = map Plain [PInt 1, PStr ''a'', PNone, PBool True] \<and> len c' = 4)"
proof -
  have a: "\<not> readonly (root_list AnyK [])"
    by (simp add: readonly_def get_flag_def root_list_def)
  have b: "content (root_list AnyK []) = []" by (simp add: root_list_def)
  have c: "element_type (root_list AnyK []) = AnyK" by (simp add: root_list_def)
  have d: "list_all is_primitive_type [PInt 1, PStr ''a'', PNone, PBool True]" by simp
  show ?thesis
    using append_iter_round_trip [OF a b c d, of no_floats example_hooks] a b c d by simp
qed

text \<open>
  The claim as stated, for every empty container, fails: a container with an element type
  canonicalizes what is appended, so the string \<^verbatim>\<open>"5"\<close> appended to an empty container of
  integers is iterated back as the integer 5; and a read-only container refuses the
  append.
\<close>

theorem typed_append_iter_differs:
  "ListConfig_extend no_floats example_hooks (root_list IntegerK []) (map Plain [PStr ''5''])
     = (Inr (), root_list IntegerK [VNode \<lparr>kind = IntegerK, is_optional = True, val = PInt 5\<rparr>]) \<and>
   ListConfig_iter
       (root_list IntegerK [VNode \<lparr>kind = IntegerK, is_optional = True, val = PInt 5\<rparr>])
     = [Plain (PInt 5)] \<and>
   [Plain (PInt 5)] \<noteq> map Plain [PStr ''5''] \<and>
   is_primitive_type (PStr ''5'') \<and> example_kind ''5'' = VALUE \<and>
   content (root_list IntegerK []) = [] \<and>
   fst (ListConfig_extend no_floats example_hooks
          (root_list AnyK []\<lparr>flags := [(''readonly'', True)]\<rparr>) (map Plain [PStr ''5'']))
     = Inl (ReadonlyConfigError (Some ''0''))"
proof -
  have i5: "int_of_str ''5'' = Some 5"
    by (simp add: int_of_str_def strip_def is_space_def parse_nat_def is_digit_def digit_val_def)
  have z: "str_of_int 0 = ''0''" by code_simp
  have a: "ListConfig_extend no_floats example_hooks (root_list IntegerK [])
      (map Plain [PStr ''5''])
     = (Inr (), root_list IntegerK [VNode \<lparr>kind = IntegerK, is_optional = True, val = PInt 5\<rparr>])"
    by (simp add: ListConfig_append_def maybe_wrap_def node_wrap_def IntegerNode_def
        set_value_def is_placeholder_def example_hooks_def example_kind_def i5 root_list_def
        readonly_def get_flag_def)
  have b: "ListConfig_iter
       (root_list IntegerK [VNode \<lparr>kind = IntegerK, is_optional = True, val = PInt 5\<rparr>])
     = [Plain (PInt 5)]"
    by (simp add: ListConfig_iter_def root_list_def ValueNode_value_def)
  have c: "example_kind ''5'' = VALUE" by (simp add: example_kind_def)
  have d: "fst (ListConfig_extend no_floats example_hooks
          (root_list AnyK []\<lparr>flags := [(''readonly'', True)]\<rparr>) (map Plain [PStr ''5'']))
     = Inl (ReadonlyConfigError (Some ''0''))"
    by (simp add: ListConfig_append_def root_list_def readonly_def get_flag_def len_def z
        example_hooks_def)
  show ?thesis unfolding a b using c d by (simp add: root_list_def)
qed

subsection \<open>Read-only containers\<close>

text \<open>
  Claim C2, as the code has it. On a container whose read-only flag is set, locally or
  through an ancestor, every mutating operation leaves the container as it was, and:
  \<open>append\<close>, \<open>insert\<close>, \<open>pop\<close>, \<open>clear\<close>, \<open>set_item\<close> with an integer index and
  \<open>extend\<close> with at least one item fail with \<^verbatim>\<open>ReadonlyConfigError\<close> carrying the full key
  of the key they were called with (for \<open>append\<close> and \<open>extend\<close> the length, for \<open>pop\<close>
  with the index -1 the empty key); \<open>sort\<close> fails with a \<^verbatim>\<open>ReadonlyConfigError\<close> that
  carries no path; \<open>set_item\<close> with an index that is no integer fails with
  \<^verbatim>\<open>UnsupportedKeyType\<close>; \<open>extend\<close> with no item succeeds; \<open>remove\<close> fails with
  \<^verbatim>\<open>ValueError\<close> when the value is not in the container, and otherwise with
  \<^verbatim>\<open>ReadonlyConfigError\<close> carrying the full key of the index found.
\<close>

theorem readonly_operations_fail:
  assumes "readonly c"
  shows
  "(as_int index = None \<longrightarrow>
      ListConfig_setitem B H c index x = (Inl UnsupportedKeyType, c)) \<and>
   (as_int index \<noteq> None \<longrightarrow>
      ListConfig_setitem B H c index x
        = (Inl (ReadonlyConfigError (Some (get_full_key H c (py_str B index)))), c)) \<and>
   ListConfig_append B H c x
     = (Inl (ReadonlyConfigError (Some (get_full_key H c (str_of_int (len c))))), c) \<and>
   ListConfig_insert B H c i x
     = (Inl (ReadonlyConfigError (Some (get_full_key H c (str_of_int i)))), c) \<and>
   ListConfig_pop H c i
     = (Inl (ReadonlyConfigError (Some (get_full_key H c (pop_key i)))), c) \<and>
   ListConfig_sort B c key reverse = (Inl (ReadonlyConfigError None), c) \<and>
   ListConfig_extend B H c [] = (Inr (), c) \<and>
   ListConfig_extend B H c (x # xs)
     = (Inl (ReadonlyConfigError (Some (get_full_key H c (str_of_int (len c))))), c) \<and>
   ListConfig_clear H c
     = (Inl (ReadonlyConfigError (Some (get_full_key H c ''slice(None, None, None)''))), c) \<and>
   (\<forall>j. ListConfig_index B c v = Inr j \<longrightarrow>
      ListConfig_remove B H c v
        = (Inl (ReadonlyConfigError (Some (get_full_key H c (str_of_int j)))), c)) \<and>
   (ListConfig_index B c v = Inl ValueError \<longrightarrow>
      ListConfig_remove B H c v = (Inl ValueError, c))"
  using assms
  by (auto simp: ListConfig_setitem_def set_at_index_def ListConfig_append_def
      ListConfig_insert_def ListConfig_pop_def ListConfig_sort_def ListConfig_clear_def
      delitem_def ListConfig_remove_def)

theorem readonly_operations_fail_witness:
  "readonly inherited_readonly \<and>
   ListConfig_append no_floats example_hooks inherited_readonly (Plain (PInt 3))
     = (Inl (ReadonlyConfigError (Some ''2'')), inherited_readonly) \<and>
   ListConfig_pop example_hooks inherited_readonly (- 1)
     = (Inl (ReadonlyConfigError (Some [])), inherited_readonly) \<and>
   ListConfig_setitem no_floats example_hooks inherited_readonly (PInt 0) (Plain (PInt 3))
     = (Inl (ReadonlyConfigError (Some ''0'')), inherited_readonly) \<and>
   ListConfig_setitem no_floats example_hooks inherited_readonly (PStr ''a'') (Plain (PInt 3))
     = (Inl UnsupportedKeyType, inherited_readonly) \<and>
   ListConfig_index no_floats inherited_readonly (PInt 2) = Inr 1 \<and>
   ListConfig_remove no_floats example_hooks inherited_readonly (PInt 2)
     = (Inl (ReadonlyConfigError (Some ''1'')), inherited_readonly) \<and>
   ListConfig_index no_floats inherited_readonly (PInt 7) = Inl ValueError \<and>
   ListConfig_remove no_floats example_hooks inherited_readonly (PInt 7)
     = (Inl ValueError, inherited_readonly)"
proof -
  have r: "readonly inherited_readonly"
    by (simp add: readonly_def get_flag_def inherited_readonly_def)
  have l: "str_of_int (len inherited_readonly) = ''2''"
    unfolding len_def inherited_readonly_def by code_simp
  have z: "str_of_int 0 = ''0''" "str_of_int 1 = ''1''" by code_simp+
  have i: "ListConfig_index no_floats inherited_readonly (PInt 2) = Inr 1"
    by (simp add: ListConfig_index_def ListConfig_iter_def inherited_readonly_def any_node_def
        ValueNode_value_def no_floats_def)
  have k: "ListConfig_index no_floats inherited_readonly (PInt 7) = Inl ValueError"
    by (simp add: ListConfig_index_def ListConfig_iter_def inherited_readonly_def any_node_def
        ValueNode_value_def no_floats_def)
  have g: "get_full_key example_hooks = (\<lambda>c k. k)" by (simp add: example_hooks_def)
  have p: "pop_key (- 1) = []" by (simp add: pop_key_def)
  show ?thesis
    using readonly_operations_fail [OF r, of "PInt 0" no_floats example_hooks "Plain (PInt 3)"
        "- 1" None False "[]" "PInt 2"]
      readonly_operations_fail [OF r, of "PStr ''a''" no_floats example_hooks "Plain (PInt 3)"
        "- 1" None False "[]" "PInt 7"]
      r l z i k g p
    by simp
qed

text \<open>
  The claim as stated fails: on a read-only container \<open>sort\<close> raises a
  \<^verbatim>\<open>ReadonlyConfigError\<close> without a path, and \<open>extend\<close> with no item raises nothing.
\<close>

theorem readonly_sort_has_no_path:
  "readonly inherited_readonly \<and>
   \<not> (\<exists>p. fst (ListConfig_sort no_floats inherited_readonly None False)
            = Inl (ReadonlyConfigError (Some p))) \<and>
   fst (ListConfig_extend no_floats example_hooks inherited_readonly []) = Inr ()"
  by (simp add: readonly_def get_flag_def inherited_readonly_def ListConfig_sort_def)

subsection \<open>Insertion\<close>

text \<open>
  At an index from 0 to the length, the insertion is transactional: the wrapped value
  stands at the index and the other elements keep their order, or the call raises and the
  container is as it was before the call.
\<close>

lemma insert_in_range_transactional:
  assumes "\<not> readonly c" "0 \<le> i" "i \<le> len c"
  shows "(\<exists>nd. maybe_wrap B (get_value_kind H) (element_type c) x True = Inr nd \<and>
            ListConfig_insert B H c i x
              = (Inr (), c\<lparr>content := take (nat i) (content c) @ nd # drop (nat i) (content c)\<rparr>)) \<or>
         (\<exists>e. ListConfig_insert B H c i x = (Inl e, c))"
proof -
  let ?p = "VNode \<lparr>kind = AnyK, is_optional = True, val = PNone\<rparr>"
  let ?xs = "take (nat i) (content c) @ ?p # drop (nat i) (content c)"
  have p: "AnyNode B (get_value_kind H) PNone True
      = Inr \<lparr>kind = AnyK, is_optional = True, val = PNone\<rparr>"
    by (simp add: AnyNode_def set_value_def is_placeholder_def AnyNode_validate_and_convert_def)
  have n: "nat i \<le> length (content c)" using assms by (simp add: len_def)
  have ins: "list_insert (content c) i ?p = ?xs"
    using assms by (simp add: list_insert_def len_def min_def)
  have ni: "norm_index (length ?xs) i = Some (nat i)"
    using assms n by (simp add: norm_index_def len_def)
  have del: "list_delete ?xs i = Some (content c)"
    using n ni by (simp add: list_delete_def)
  have set: "\<And>nd. list_set ?xs i nd
      = Some (take (nat i) (content c) @ nd # drop (nat i) (content c))"
    using n ni by (simp add: list_set_def list_update_append)
  show ?thesis
  proof (cases "maybe_wrap B (get_value_kind H) (element_type c) x True")
    case (Inl e)
    then show ?thesis using assms(1) p ins del
      by (cases e) (simp_all add: ListConfig_insert_def set_at_index_def set_item_impl_def
          insert_rollback_def)
  next
    case (Inr nd)
    then show ?thesis using assms(1) p ins set
      by (simp add: ListConfig_insert_def set_at_index_def set_item_impl_def)
  qed
qed


text \<open>
  Claim C3, at an index outside the list. \<^verbatim>\<open>list.insert\<close> clamps the index, the assignment
  and the deletion in the handler do not. On the container of 1 and 2: \<open>insert(5, "x")\<close>
  raises \<^verbatim>\<open>IndexError\<close> and leaves the placeholder as a third element; \<open>insert(-1, "x")\<close>
  succeeds, having overwritten the 2 and left the placeholder in front of \<open>"x"\<close>;
  \<open>insert(-1, <object>)\<close> fails, and the handler deletes the 2 instead of the placeholder.
\<close>

theorem insert_outside_range_not_transactional:
  "ListConfig_insert no_floats example_hooks
       (root_list AnyK [any_node (PInt 1), any_node (PInt 2)]) 5 (Plain (PStr ''x''))
     = (Inl IndexError, root_list AnyK [any_node (PInt 1), any_node (PInt 2), any_node PNone]) \<and>
   ListConfig_insert no_floats example_hooks
       (root_list AnyK [any_node (PInt 1), any_node (PInt 2)]) (- 1) (Plain (PStr ''x''))
     = (Inr (), root_list AnyK [any_node (PInt 1), any_node PNone, any_node (PStr ''x'')]) \<and>
   ListConfig_insert no_floats example_hooks
       (root_list AnyK [any_node (PInt 1), any_node (PInt 2)]) (- 1) (Plain (PObj 0))
     = (Inl (UnsupportedValueType (Some ''-1'')),
        root_list AnyK [any_node (PInt 1), any_node PNone])"
proof -
  have s: "str_of_int (- 1) = ''-1''" by code_simp
  show ?thesis
    by (simp add: ListConfig_insert_def root_list_not_readonly AnyNode_def set_value_def
      is_placeholder_def AnyNode_validate_and_convert_def root_list_def list_insert_def
      set_at_index_def set_item_impl_def maybe_wrap_def node_wrap_def list_set_def
      norm_index_def insert_rollback_def list_delete_def any_node_def example_hooks_def
      example_kind_def s readonly_def get_flag_def)
qed

subsection \<open>Failures and the content\<close>

lemma extend_failure_prefix:
  assumes "fst (ListConfig_extend B H c xs) \<noteq> Inr ()"
  shows "\<exists>k<length xs.
           fst (ListConfig_extend B H c (take k xs)) = Inr () \<and>
           fst (ListConfig_append B H (snd (ListConfig_extend B H c (take k xs))) (xs ! k)) \<noteq> Inr () \<and>
           snd (ListConfig_extend B H c xs)
             = snd (ListConfig_append B H (snd (ListConfig_extend B H c (take k xs))) (xs ! k))"
  using assms
proof (induction xs arbitrary: c)
  case Nil
  then show ?case by simp
next
  case (Cons x xs)
  show ?case
  proof (cases "ListConfig_append B H c x")
    case (Pair r c')
    show ?thesis
    proof (cases r)
      case (Inl e)
      then have "fst (ListConfig_extend B H c (take 0 (x # xs))) = Inr () \<and>
           fst (ListConfig_append B H (snd (ListConfig_extend B H c (take 0 (x # xs)))) ((x # xs) ! 0)) \<noteq> Inr () \<and>
           snd (ListConfig_extend B H c (x # xs))
             = snd (ListConfig_append B H (snd (ListConfig_extend B H c (take 0 (x # xs)))) ((x # xs) ! 0))"
        using Pair by simp
      then show ?thesis by blast
    next
      case (Inr u)
      then have ext: "\<And>ys. ListConfig_extend B H c (x # ys) = ListConfig_extend B H c' ys"
        using Pair by simp
      then have "fst (ListConfig_extend B H c' xs) \<noteq> Inr ()" using Cons.prems by simp
      from Cons.IH [OF this] obtain k where k: "k < length xs"
        "fst (ListConfig_extend B H c' (take k xs)) = Inr ()"
        "fst (ListConfig_append B H (snd (ListConfig_extend B H c' (take k xs))) (xs ! k)) \<noteq> Inr ()"
        "snd (ListConfig_extend B H c' xs)
             = snd (ListConfig_append B H (snd (ListConfig_extend B H c' (take k xs))) (xs ! k))"
        by blast
      have "Suc k < length (x # xs) \<and>
           fst (ListConfig_extend B H c (take (Suc k) (x # xs))) = Inr () \<and>
           fst (ListConfig_append B H (snd (ListConfig_extend B H c (take (Suc k) (x # xs)))) ((x # xs) ! Suc k)) \<noteq> Inr () \<and>
           snd (ListConfig_extend B H c (x # xs))
             = snd (ListConfig_append B H (snd (ListConfig_extend B H c (take (Suc k) (x # xs)))) ((x # xs) ! Suc k))"
        using k ext by simp
      then show ?thesis by blast
    qed
  qed
qed

lemma append_failure_unchanged:
  "fst (ListConfig_append B H c x) \<noteq> Inr () \<Longrightarrow> snd (ListConfig_append B H c x) = c"
  by (auto simp: ListConfig_append_def split: if_splits sum.splits error.splits)

lemma setitem_failure_unchanged:
  "fst (ListConfig_setitem B H c index x) \<noteq> Inr () \<Longrightarrow> snd (ListConfig_setitem B H c index x) = c"
  by (auto simp: ListConfig_setitem_def set_at_index_def set_item_impl_def
      split: if_splits sum.splits error.splits option.splits prod.splits)

lemma py_list_sort_error: "fst (py_list_sort B r ks) = Some e \<Longrightarrow> e = TypeError"
  by (auto simp: py_list_sort_def split: if_splits)

lemma sort_failure_unchanged:
  assumes "fst (ListConfig_sort B c key reverse) = Inl e" "e \<noteq> TypeError"
  shows "snd (ListConfig_sort B c key reverse) = c"
proof (cases "readonly c")
  case True
  then show ?thesis by (simp add: ListConfig_sort_def)
next
  case False
  show ?thesis
  proof (cases "keys_of key (content c)")
    case (Inl e')
    then show ?thesis using False by (simp add: ListConfig_sort_def)
  next
    case (Inr ks)
    obtain r ks' where p: "py_list_sort B reverse ks = (r, ks')"
      by (cases "py_list_sort B reverse ks") auto
    then have "r = Some e" using assms(1) False Inr
      by (cases r) (simp_all add: ListConfig_sort_def)
    then have "e = TypeError" using p py_list_sort_error [of B reverse ks e] by simp
    then show ?thesis using assms(2) by simp
  qed
qed

lemma arrange_mset: "mset (arrange perm xs) = mset xs"
proof (cases "sort perm = [0..<length xs]")
  case True
  have "mset perm = mset (sort perm)" by simp
  then have "mset perm = mset [0..<length xs]" using True by simp
  then have "mset (map (\<lambda>i. xs ! i) perm) = mset (map (\<lambda>i. xs ! i) [0..<length xs])"
    by (metis mset_map)
  then show ?thesis using True by (simp add: arrange_def map_nth)
next
  case False
  then show ?thesis by (simp add: arrange_def)
qed

lemma stable_sort_mset: "mset (stable_sort k r xs) = mset xs"
  by (simp add: stable_sort_def)

lemma py_list_sort_mset: "mset (snd (py_list_sort B r ks)) = mset ks"
  by (simp add: py_list_sort_def arrange_mset stable_sort_mset)

lemma keys_of_snd: "keys_of key xs = Inr ks \<Longrightarrow> map snd ks = xs"
  by (induction xs arbitrary: ks) (auto split: sum.splits)

lemma sort_keeps_elements:
  "mset (content (snd (ListConfig_sort B c key reverse))) = mset (content c)"
proof (cases "readonly c")
  case True
  then show ?thesis by (simp add: ListConfig_sort_def)
next
  case False
  show ?thesis
  proof (cases "keys_of key (content c)")
    case (Inl e')
    then show ?thesis using False by (simp add: ListConfig_sort_def)
  next
    case (Inr ks)
    obtain r ks' where p: "py_list_sort B reverse ks = (r, ks')"
      by (cases "py_list_sort B reverse ks") auto
    have "mset ks' = mset ks" using p py_list_sort_mset [of B reverse ks] by simp
    then have "mset (map snd ks') = mset (map snd ks)" by (metis mset_map)
    then have "mset (map snd ks') = mset (content c)" using keys_of_snd [OF Inr] by simp
    then show ?thesis using False Inr p by (cases r) (simp_all add: ListConfig_sort_def)
  qed
qed

lemma delitem_failure_unchanged:
  "fst (delitem H c k) \<noteq> Inr () \<Longrightarrow> snd (delitem H c k) = c"
  by (auto simp: delitem_def split: if_splits del_key.splits option.splits)

lemma remove_failure_unchanged:
  "fst (ListConfig_remove B H c v) \<noteq> Inr () \<Longrightarrow> snd (ListConfig_remove B H c v) = c"
  by (auto simp: ListConfig_remove_def delitem_failure_unchanged split: sum.splits)

lemma pop_check_failure_unchanged:
  "readonly c \<or> list_pop (content c) i = None \<Longrightarrow>
     (\<exists>e. fst (ListConfig_pop H c i) = Inl e) \<and> snd (ListConfig_pop H c i) = c"
  by (auto simp: ListConfig_pop_def)

text \<open>
  Claim C5, as the code has it. When \<open>set_item\<close>, \<open>append\<close>, \<open>remove\<close> or \<open>clear\<close>
  raises, the container is as it was before the call. When \<open>sort\<close> raises anything but
  the \<^verbatim>\<open>TypeError\<close> of a comparison (its read-only error, the \<^verbatim>\<open>AttributeError\<close> of a child
  without \<open>value\<close>), the container is as it was; a \<open>sort\<close> whose comparison raises
  \<^verbatim>\<open>TypeError\<close> may leave the elements in another order, and in every case the elements
  are the same. When \<open>pop\<close> raises on its read-only check or because the index is out of
  range, the element is in place. When \<open>extend\<close> raises, the items in front of the
  failing one have been appended and stay, and the failing one has changed nothing.
\<close>

theorem failed_operations_content:
  "(fst (ListConfig_setitem B H c index x) \<noteq> Inr () \<longrightarrow>
      snd (ListConfig_setitem B H c index x) = c) \<and>
   (fst (ListConfig_append B H c x) \<noteq> Inr () \<longrightarrow> snd (ListConfig_append B H c x) = c) \<and>
   (\<forall>e. fst (ListConfig_sort B c key reverse) = Inl e \<and> e \<noteq> TypeError \<longrightarrow>
      snd (ListConfig_sort B c key reverse) = c) \<and>
   mset (content (snd (ListConfig_sort B c key reverse))) = mset (content c) \<and>
   (fst (ListConfig_remove B H c v) \<noteq> Inr () \<longrightarrow> snd (ListConfig_remove B H c v) = c) \<and>
   (fst (ListConfig_clear H c) \<noteq> Inr () \<longrightarrow> snd (ListConfig_clear H c) = c) \<and>
   (readonly c \<or> list_pop (content c) i = None \<longrightarrow>
      (\<exists>e. fst (ListConfig_pop H c i) = Inl e) \<and> snd (ListConfig_pop H c i) = c) \<and>
   (fst (ListConfig_extend B H c xs) \<noteq> Inr () \<longrightarrow>
      (\<exists>k<length xs.
         fst (ListConfig_extend B H c (take k xs)) = Inr () \<and>
         fst (ListConfig_append B H (snd (ListConfig_extend B H c (take k xs))) (xs ! k)) \<noteq> Inr () \<and>
         snd (ListConfig_extend B H c xs) = snd (ListConfig_extend B H c (take k xs))))"
  using setitem_failure_unchanged [of B H c index x] append_failure_unchanged [of B H c x]
    sort_failure_unchanged [of B c key reverse] sort_keeps_elements [of B c key reverse]
    remove_failure_unchanged [of B H c v]
    delitem_failure_unchanged [of H c FullSlice] pop_check_failure_unchanged [of c i H]
    extend_failure_prefix [of B H c xs] append_failure_unchanged [of B H]
  unfolding ListConfig_clear_def by metis

theorem failed_operations_content_witness:
  "fst (ListConfig_clear example_hooks inherited_readonly) \<noteq> Inr () \<and>
   snd (ListConfig_clear example_hooks inherited_readonly) = inherited_readonly \<and>
   list_pop (content (root_list IntegerK [])) 0 = None \<and>
   snd (ListConfig_pop example_hooks (root_list IntegerK []) 0) = root_list IntegerK [] \<and>
   fst (ListConfig_append no_floats example_hooks (root_list IntegerK []) (Plain (PStr ''x'')))
     \<noteq> Inr () \<and>
   snd (ListConfig_append no_floats example_hooks (root_list IntegerK []) (Plain (PStr ''x'')))
     = root_list IntegerK [] \<and>
   fst (ListConfig_extend no_floats example_hooks (root_list IntegerK [])
          [Plain (PStr ''1''), Plain (PStr ''x'')]) \<noteq> Inr () \<and>
   (\<exists>k<length [Plain (PStr ''1''), Plain (PStr ''x'')].
           snd (ListConfig_extend no_floats example_hooks (root_list IntegerK [])
                  [Plain (PStr ''1''), Plain (PStr ''x'')])
             = snd (ListConfig_extend no_floats example_hooks (root_list IntegerK [])
                  (take k [Plain (PStr ''1''), Plain (PStr ''x'')])))"
proof -
  let ?c = "root_list IntegerK []"
  let ?xs = "[Plain (PStr ''1''), Plain (PStr ''x'')]"
  have i1: "int_of_str ''1'' = Some 1"
    by (simp add: int_of_str_def strip_def is_space_def parse_nat_def is_digit_def digit_val_def)
  have ix: "int_of_str ''x'' = None"
    by (simp add: int_of_str_def strip_def is_space_def parse_nat_def is_digit_def digit_val_def)
  have r: "readonly inherited_readonly"
    by (simp add: readonly_def get_flag_def inherited_readonly_def)
  have h1: "fst (ListConfig_clear example_hooks inherited_readonly) \<noteq> Inr ()"
    using r by (simp add: ListConfig_clear_def delitem_def)
  have h2: "list_pop (content ?c) 0 = None"
    by (simp add: root_list_def list_pop_def norm_index_def)
  have h3: "fst (ListConfig_append no_floats example_hooks ?c (Plain (PStr ''x''))) \<noteq> Inr ()"
    by (simp add: ListConfig_append_def maybe_wrap_def node_wrap_def
        IntegerNode_def set_value_def is_placeholder_def example_hooks_def example_kind_def
        ix root_list_def readonly_def get_flag_def)
  have h4: "fst (ListConfig_extend no_floats example_hooks ?c ?xs) \<noteq> Inr ()"
    by (simp add: ListConfig_append_def maybe_wrap_def node_wrap_def
        IntegerNode_def set_value_def is_placeholder_def example_hooks_def example_kind_def
        i1 ix root_list_def readonly_def get_flag_def)
  have a: "snd (ListConfig_clear example_hooks inherited_readonly) = inherited_readonly"
    using failed_operations_content [of no_floats example_hooks inherited_readonly PNone
        "Plain PNone" None False PNone 0 "[]"] h1 by blast
  have b: "snd (ListConfig_pop example_hooks ?c 0) = ?c"
    using failed_operations_content [of no_floats example_hooks ?c PNone
        "Plain (PStr ''x'')" None False PNone 0 ?xs] h2 by blast
  have c: "snd (ListConfig_append no_floats example_hooks ?c (Plain (PStr ''x''))) = ?c"
    using failed_operations_content [of no_floats example_hooks ?c PNone
        "Plain (PStr ''x'')" None False PNone 0 ?xs] h3 by blast
  have d: "\<exists>k<length ?xs. snd (ListConfig_extend no_floats example_hooks ?c ?xs)
             = snd (ListConfig_extend no_floats example_hooks ?c (take k ?xs))"
    using failed_operations_content [of no_floats example_hooks ?c PNone
        "Plain (PStr ''x'')" None False PNone 0 ?xs] h4 by blast
  show ?thesis by (intro conjI h1 a h2 b h3 c h4 d)
qed

text \<open>
  The claim as stated fails. \<open>extend\<close> of \<open>"1"\<close> and \<open>"x"\<close> on an empty container of
  integers raises \<^verbatim>\<open>ValidationError\<close> and leaves the 1 in the container; \<open>pop\<close> takes
  the element out of the list before it resolves it, so a \<open>pop\<close> of a node that holds the
  mandatory-missing marker raises with the element gone.
\<close>

theorem failed_pop_and_extend_mutate:
  "fst (ListConfig_pop example_hooks (root_list AnyK [any_node (PStr ''???'')]) 0)
     = Inl (MissingMandatoryValue ''0'') \<and>
   content (snd (ListConfig_pop example_hooks (root_list AnyK [any_node (PStr ''???'')]) 0)) = [] \<and>
   fst (ListConfig_extend no_floats example_hooks (root_list IntegerK [])
          [Plain (PStr ''1''), Plain (PStr ''x'')]) = Inl ValidationError \<and>
   content (snd (ListConfig_extend no_floats example_hooks (root_list IntegerK [])
          [Plain (PStr ''1''), Plain (PStr ''x'')]))
     = [VNode \<lparr>kind = IntegerK, is_optional = True, val = PInt 1\<rparr>]"
proof -
  have z: "str_of_int 0 = ''0''" by code_simp
  have i1: "int_of_str ''1'' = Some 1"
    by (simp add: int_of_str_def strip_def is_space_def parse_nat_def is_digit_def digit_val_def)
  have ix: "int_of_str ''x'' = None"
    by (simp add: int_of_str_def strip_def is_space_def parse_nat_def is_digit_def digit_val_def)
  have p: "ListConfig_pop example_hooks (root_list AnyK [any_node (PStr ''???'')]) 0
      = (Inl (MissingMandatoryValue ''0''), root_list AnyK [])"
    by (simp add: ListConfig_pop_def root_list_not_readonly list_pop_def norm_index_def
        example_hooks_def example_resolve_def any_node_def z root_list_def readonly_def
        get_flag_def)
  have e: "ListConfig_extend no_floats example_hooks (root_list IntegerK [])
          [Plain (PStr ''1''), Plain (PStr ''x'')]
      = (Inl ValidationError, root_list IntegerK [VNode \<lparr>kind = IntegerK, is_optional = True, val = PInt 1\<rparr>])"
    by (simp add: ListConfig_append_def root_list_not_readonly maybe_wrap_def node_wrap_def
        IntegerNode_def set_value_def is_placeholder_def example_hooks_def example_kind_def
        i1 ix root_list_def readonly_def get_flag_def)
  show ?thesis unfolding p e by (simp add: root_list_def)
qed

subsection \<open>Sorting\<close>













text \<open>
  Keys that Python's \<^verbatim>\<open><\<close> does not order: the sort of 3 and none raises \<^verbatim>\<open>TypeError\<close>.
\<close>

lemma sort_mixed_keys_raises:
  "fst (ListConfig_sort B (root_list AnyK [any_node (PInt 3), any_node PNone]) None False)
     = Inl TypeError"
  by (simp add: ListConfig_sort_def py_list_sort_def readonly_def get_flag_def root_list_def
      any_node_def ValueNode_value_def)

end
